theory Spec2Isabelle
  imports Main "HOL-Library.Word"
begin

unbundle bit_operations_syntax

section \<open>The event object of \<open>lib/posix/eventfd.c\<close>\<close>

text \<open>
  The model follows \<open>src/lib/posix/eventfd.c\<close> function by function. One thread runs one
  operation at a time: \<open>k_mutex_lock\<close> and \<open>k_mutex_unlock\<close> on \<open>cnt_mtx\<close> and
  \<open>eventfd_mtx\<close> always succeed at once and leave no trace, so they are not part of the
  state. A thread that calls \<open>k_sem_take\<close> with \<open>K_FOREVER\<close> on an empty semaphore is
  suspended; no other thread runs inside an operation, so the operation does not return,
  which the model writes as the outcome \<open>None\<close> next to the state the thread left behind.
\<close>

subsection \<open>Constants of headers that are not part of the source\<close>

text \<open>
  \<open>posix/sys/eventfd.h\<close>, \<open>net/socket.h\<close> and \<open>kernel.h\<close> are included by the source but
  are not part of it. Their constants are parameters of every function below: the flag
  bits of \<open>int flags\<close>, the event bits of the \<open>short\<close> fields of \<open>struct zsock_pollfd\<close>,
  and the type, mode and state codes of \<open>struct k_poll_event\<close>.
\<close>

record hdr =
  EFD_IN_USE :: "32 word"
  EFD_SEMAPHORE :: "32 word"
  EFD_NONBLOCK :: "32 word"
  EFD_FLAGS_SET :: "32 word"
  ZSOCK_POLLIN :: "16 word"
  ZSOCK_POLLOUT :: "16 word"
  K_POLL_TYPE_SEM_AVAILABLE :: "32 word"
  K_POLL_MODE_NOTIFY_ONLY :: "32 word"
  K_POLL_STATE_NOT_READY :: "32 word"

text \<open>\<open>eventfd_t\<close> is the 64-bit counter type; \<open>sizeof(eventfd_t)\<close> is 8 bytes.\<close>

type_synonym eventfd_t = "64 word"

definition sizeof_eventfd_t :: nat where
  "sizeof_eventfd_t = 8"

definition UINT64_MAX :: eventfd_t where
  "UINT64_MAX = 0xFFFFFFFFFFFFFFFF"

datatype errno = EINVAL | EAGAIN | ENOMEM | EOPNOTSUPP | ENFILE

subsection \<open>Kernel semaphores\<close>

text \<open>
  Modelled from the spec: \<open>struct k_sem\<close> and \<open>k_sem_init\<close>, \<open>k_sem_give\<close>, \<open>k_sem_take\<close>
  belong to the kernel, which is missing from the source. The spec takes them as given
  binary-semaphore wake signals: a signal is asserted (count 1) or cleared (count 0),
  giving asserts it and never counts beyond the limit, taking consumes it, and a taker
  that finds it cleared either goes on at once (\<open>K_NO_WAIT\<close>) or is suspended until it is
  asserted (\<open>K_FOREVER\<close>).
\<close>

record k_sem =
  sem_count :: nat
  sem_limit :: nat

definition k_sem_init :: "nat \<Rightarrow> nat \<Rightarrow> k_sem" where
  "k_sem_init initial_count lim = \<lparr>sem_count = initial_count, sem_limit = lim\<rparr>"

definition k_sem_give :: "k_sem \<Rightarrow> k_sem" where
  "k_sem_give s = (if sem_count s < sem_limit s then s\<lparr>sem_count := sem_count s + 1\<rparr> else s)"

definition k_sem_take_no_wait :: "k_sem \<Rightarrow> k_sem" where
  "k_sem_take_no_wait s = (if 0 < sem_count s then s\<lparr>sem_count := sem_count s - 1\<rparr> else s)"

definition k_sem_take_forever :: "k_sem \<Rightarrow> k_sem option" where
  "k_sem_take_forever s = (if 0 < sem_count s then Some (s\<lparr>sem_count := sem_count s - 1\<rparr>) else None)"

subsection \<open>\<open>struct eventfd\<close>\<close>

record eventfd_s =
  read_sem :: k_sem
  write_sem :: k_sem
  cnt :: eventfd_t
  flags :: "32 word"

subsection \<open>\<open>eventfd_read_op\<close>\<close>

text \<open>
  The body of the outer \<open>do ... while (repeat)\<close> of \<open>eventfd_read_op\<close>, from the state on
  entry to the loop. The result is \<open>Inl EAGAIN\<close> for \<open>result = EAGAIN\<close>, \<open>Inr count\<close>
  when the counter was drained by \<open>count\<close>, and \<open>None\<close> when the thread is suspended in
  \<open>k_sem_take(&efd->read_sem, K_FOREVER)\<close>.
\<close>

function eventfd_read_loop :: "hdr \<Rightarrow> bool \<Rightarrow> eventfd_s \<Rightarrow> eventfd_s \<times> (errno + eventfd_t) option" where
  "eventfd_read_loop H nonblock efd =
     (if nonblock \<and> cnt efd = 0 then (efd, Some (Inl EAGAIN))
      else if cnt efd = 0 then
        (case k_sem_take_forever (read_sem efd) of
           None \<Rightarrow> (efd, None)
         | Some s \<Rightarrow> eventfd_read_loop H nonblock (efd\<lparr>read_sem := s\<rparr>))
      else
        (let count = (if flags efd AND EFD_SEMAPHORE H \<noteq> 0 then 1 else cnt efd);
             efd = efd\<lparr>cnt := cnt efd - count\<rparr>;
             efd = (if cnt efd \<noteq> 0 then efd\<lparr>read_sem := k_sem_give (read_sem efd)\<rparr> else efd)
         in (efd, Some (Inr count))))"
  by pat_completeness auto
termination
  by (relation "measure (\<lambda>(H, nonblock, efd). sem_count (read_sem efd))")
     (auto simp: k_sem_take_forever_def split: if_splits)

text \<open>
  \<open>eventfd_read_op obj buf sz\<close>: the result is the returned \<open>ssize_t\<close> together with the
  eight bytes stored at \<open>buf\<close>, or \<open>Inl e\<close> for the return of \<open>-1\<close> with \<open>errno = e\<close>.
\<close>

definition eventfd_read_op :: "hdr \<Rightarrow> eventfd_s \<Rightarrow> nat \<Rightarrow> eventfd_s \<times> (errno + nat \<times> eventfd_t) option" where
  "eventfd_read_op H efd sz =
     (let nonblock = (flags efd AND EFD_NONBLOCK H \<noteq> 0) in
      if sz < sizeof_eventfd_t then (efd, Some (Inl EINVAL))
      else
        (let efd = efd\<lparr>read_sem := k_sem_take_no_wait (read_sem efd)\<rparr> in
         case eventfd_read_loop H nonblock efd of
           (efd, None) \<Rightarrow> (efd, None)
         | (efd, Some (Inl result)) \<Rightarrow> (efd, Some (Inl result))
         | (efd, Some (Inr count)) \<Rightarrow>
             (efd\<lparr>write_sem := k_sem_give (write_sem efd)\<rparr>,
              Some (Inr (sizeof_eventfd_t, count)))))"

subsection \<open>\<open>eventfd_write_op\<close>\<close>

text \<open>
  The body of the outer \<open>do ... while (repeat)\<close> of \<open>eventfd_write_op\<close>. When \<open>repeat\<close> is
  false the body ends with \<open>k_sem_give(&efd->read_sem)\<close>, also on the path that has set
  \<open>result = EAGAIN\<close>.
\<close>

function eventfd_write_loop :: "bool \<Rightarrow> eventfd_t \<Rightarrow> eventfd_s \<Rightarrow> eventfd_s \<times> (errno + unit) option" where
  "eventfd_write_loop nonblock count efd =
     (let overflow = (UINT64_MAX - count \<le> cnt efd) in
      if nonblock \<and> overflow then
        (efd\<lparr>read_sem := k_sem_give (read_sem efd)\<rparr>, Some (Inl EAGAIN))
      else if overflow then
        (case k_sem_take_forever (write_sem efd) of
           None \<Rightarrow> (efd, None)
         | Some s \<Rightarrow> eventfd_write_loop nonblock count (efd\<lparr>write_sem := s\<rparr>))
      else
        (let efd = efd\<lparr>cnt := cnt efd + count\<rparr>
         in (efd\<lparr>read_sem := k_sem_give (read_sem efd)\<rparr>, Some (Inr ()))))"
  by pat_completeness auto
termination
  by (relation "measure (\<lambda>(nonblock, count, efd). sem_count (write_sem efd))")
     (auto simp: k_sem_take_forever_def split: if_splits)

text \<open>
  \<open>eventfd_write_op obj buf sz\<close>: \<open>count\<close> is the value \<open>*((eventfd_t *)buf)\<close>, read only
  after the size check.
\<close>

definition eventfd_write_op :: "hdr \<Rightarrow> eventfd_s \<Rightarrow> eventfd_t \<Rightarrow> nat \<Rightarrow> eventfd_s \<times> (errno + nat) option" where
  "eventfd_write_op H efd count sz =
     (let nonblock = (flags efd AND EFD_NONBLOCK H \<noteq> 0) in
      if sz < sizeof_eventfd_t then (efd, Some (Inl EINVAL))
      else if count = UINT64_MAX then (efd, Some (Inl EINVAL))
      else if count = 0 then (efd, Some (Inr sizeof_eventfd_t))
      else
        (case eventfd_write_loop nonblock count efd of
           (efd, None) \<Rightarrow> (efd, None)
         | (efd, Some (Inl result)) \<Rightarrow> (efd, Some (Inl result))
         | (efd, Some (Inr u)) \<Rightarrow> (efd, Some (Inr sizeof_eventfd_t))))"

subsection \<open>The readiness adapter\<close>

text \<open>
  \<open>struct zsock_pollfd\<close> and \<open>struct k_poll_event\<close> as the source uses them. A pointer to
  a semaphore is the slot index of the object it belongs to. The array of wait slots is a
  list; the cursor \<open>*pev\<close> and the end marker \<open>pev_end\<close> are indices into it. Where the
  source dereferences \<open>*pev\<close> and the cursor is outside the array, C leaves the behaviour
  undefined and the model has no result (\<open>None\<close>).
\<close>

record zsock_pollfd =
  pfd_fd :: "32 word"
  events :: "16 word"
  revents :: "16 word"

datatype sem_ref = Read_sem_of nat | Write_sem_of nat

record k_poll_event =
  obj :: "sem_ref option"
  type :: "32 word"
  mode :: "32 word"
  state :: "32 word"

record poll_mem =
  pfd :: zsock_pollfd
  slots :: "k_poll_event list"
  pev :: nat

definition eventfd_poll_prepare :: "hdr \<Rightarrow> nat \<Rightarrow> poll_mem \<Rightarrow> nat \<Rightarrow> (poll_mem \<times> (errno + 32 word)) option" where
  "eventfd_poll_prepare H efd m pev_end =
     (if events (pfd m) AND ZSOCK_POLLIN H \<noteq> 0 then
        (if pev m = pev_end then Some (m, Inl ENOMEM)
         else if pev m < length (slots m) then
           Some (m\<lparr>slots := (slots m)[pev m := (slots m ! pev m)
                        \<lparr>obj := Some (Read_sem_of efd),
                         type := K_POLL_TYPE_SEM_AVAILABLE H,
                         mode := K_POLL_MODE_NOTIFY_ONLY H,
                         state := K_POLL_STATE_NOT_READY H\<rparr>],
                    pev := pev m + 1\<rparr>, Inr 0)
         else None)
      else Some (m, Inr 0))"

definition eventfd_poll_update :: "hdr \<Rightarrow> nat \<Rightarrow> poll_mem \<Rightarrow> (poll_mem \<times> (errno + 32 word)) option" where
  "eventfd_poll_update H efd m =
     (let m = (if events (pfd m) AND ZSOCK_POLLOUT H \<noteq> 0
               then m\<lparr>pfd := (pfd m)\<lparr>revents := revents (pfd m) OR ZSOCK_POLLOUT H\<rparr>\<rparr>
               else m)
      in if events (pfd m) AND ZSOCK_POLLIN H \<noteq> 0 then
           (if pev m < length (slots m) then
              (let m = (if state (slots m ! pev m) \<noteq> K_POLL_STATE_NOT_READY H
                        then m\<lparr>pfd := (pfd m)\<lparr>revents := revents (pfd m) OR ZSOCK_POLLIN H\<rparr>\<rparr>
                        else m)
               in Some (m\<lparr>pev := pev m + 1\<rparr>, Inr 0))
            else None)
         else Some (m, Inr 0))"

subsection \<open>\<open>eventfd_ioctl_op\<close>\<close>

text \<open>
  The request codes are constants of missing headers; the datatype has one constructor for
  each \<open>case\<close> label of the \<open>switch\<close> and one for every other request. \<open>F_SETFL\<close> carries the
  \<open>int\<close> read by \<open>va_arg\<close>, \<open>ZFD_IOCTL_POLL_PREPARE\<close> the end marker; the pointers \<open>pfd\<close>
  and \<open>pev\<close> point into the caller's \<open>poll_mem\<close>, which is passed along with the object.
\<close>

datatype request =
    F_GETFL
  | F_SETFL "32 word"
  | ZFD_IOCTL_CLOSE
  | ZFD_IOCTL_POLL_PREPARE nat
  | ZFD_IOCTL_POLL_UPDATE
  | Other_request

fun eventfd_ioctl_op :: "hdr \<Rightarrow> nat \<Rightarrow> eventfd_s \<times> poll_mem \<Rightarrow> request \<Rightarrow> ((eventfd_s \<times> poll_mem) \<times> (errno + 32 word)) option" where
  "eventfd_ioctl_op H ob (efd, m) F_GETFL = Some ((efd, m), Inr (flags efd AND EFD_FLAGS_SET H))"
| "eventfd_ioctl_op H ob (efd, m) (F_SETFL fl) =
     (if fl AND NOT (EFD_FLAGS_SET H) \<noteq> 0 then Some ((efd, m), Inl EINVAL)
      else Some ((efd\<lparr>flags := fl\<rparr>, m), Inr 0))"
| "eventfd_ioctl_op H ob (efd, m) ZFD_IOCTL_CLOSE = Some ((efd\<lparr>flags := 0\<rparr>, m), Inr 0)"
| "eventfd_ioctl_op H ob (efd, m) (ZFD_IOCTL_POLL_PREPARE pev_end) =
     (case eventfd_poll_prepare H ob m pev_end of
        None \<Rightarrow> None
      | Some (m', r) \<Rightarrow> Some ((efd, m'), r))"
| "eventfd_ioctl_op H ob (efd, m) ZFD_IOCTL_POLL_UPDATE =
     (case eventfd_poll_update H ob m of
        None \<Rightarrow> None
      | Some (m', r) \<Rightarrow> Some ((efd, m'), r))"
| "eventfd_ioctl_op H ob (efd, m) Other_request = Some ((efd, m), Inl EOPNOTSUPP)"

subsection \<open>The pool and \<open>eventfd\<close>\<close>

text \<open>
  The static array \<open>efds\<close> has \<open>CONFIG_EVENTFD_MAX\<close> entries: the length of the list.
  Modelled from the spec: the descriptor table (\<open>z_reserve_fd\<close>, \<open>z_finalize_fd\<close>) is
  missing from the source. The spec needs two things from it: allocate-handle, which
  either yields a handle or fails, and bind-handle-to-object. The outcome of
  \<open>z_reserve_fd\<close> is the parameter \<open>rsv\<close> (\<open>Inl e\<close>: it returned a negative value and
  set \<open>errno = e\<close>); \<open>z_finalize_fd\<close> records the binding in \<open>fdtable\<close>.
\<close>

record sys =
  efds :: "eventfd_s list"
  fdtable :: "nat \<rightharpoonup> nat"

text \<open>The \<open>for\<close> loop of \<open>eventfd\<close>: the first index, from \<open>i\<close> on, whose slot is not in use.\<close>

fun find_free :: "hdr \<Rightarrow> eventfd_s list \<Rightarrow> nat \<Rightarrow> nat option" where
  "find_free H [] i = None"
| "find_free H (e # es) i =
     (if flags e AND EFD_IN_USE H = 0 then Some i else find_free H es (Suc i))"

text \<open>\<open>initval\<close> is an \<open>unsigned int\<close>, 32 bits wide; the assignment to \<open>cnt\<close> zero-extends it.\<close>

definition eventfd :: "hdr \<Rightarrow> errno + nat \<Rightarrow> sys \<Rightarrow> 32 word \<Rightarrow> 32 word \<Rightarrow> sys \<times> (errno + nat)" where
  "eventfd H rsv st initval fl =
     (if fl AND NOT (EFD_FLAGS_SET H) \<noteq> 0 then (st, Inl EINVAL)
      else
        (case find_free H (efds st) 0 of
           None \<Rightarrow> (st, Inl ENOMEM)
         | Some i \<Rightarrow>
             (case rsv of
                Inl e \<Rightarrow> (st, Inl e)
              | Inr fd \<Rightarrow>
                  (let c = (ucast initval :: eventfd_t);
                       seminit = (if c \<noteq> 0 then 1 else 0);
                       efd = (efds st ! i)
                         \<lparr>read_sem := k_sem_init seminit 1,
                          write_sem := k_sem_init 0 1,
                          cnt := c,
                          flags := EFD_IN_USE H OR fl\<rparr>
                   in (st\<lparr>efds := (efds st)[i := efd], fdtable := (fdtable st)(fd \<mapsto> i)\<rparr>,
                       Inr fd)))))"

subsection \<open>Sequences of operations on one object\<close>

text \<open>
  A call of one of the three entries of \<open>eventfd_fd_vtable\<close>, with its arguments. Running
  a call gives the object as the call leaves it, also when the calling thread is suspended
  inside it; there is no next state where the behaviour is undefined.
\<close>

datatype call =
    Read nat
  | Write eventfd_t nat
  | Ioctl nat poll_mem request

fun do_call :: "hdr \<Rightarrow> eventfd_s \<Rightarrow> call \<Rightarrow> eventfd_s option" where
  "do_call H efd (Read sz) = Some (fst (eventfd_read_op H efd sz))"
| "do_call H efd (Write count sz) = Some (fst (eventfd_write_op H efd count sz))"
| "do_call H efd (Ioctl ob m req) =
     (case eventfd_ioctl_op H ob (efd, m) req of
        None \<Rightarrow> None
      | Some ((efd', m'), r) \<Rightarrow> Some efd')"

fun do_calls :: "hdr \<Rightarrow> eventfd_s \<Rightarrow> call list \<Rightarrow> eventfd_s option" where
  "do_calls H efd [] = Some efd"
| "do_calls H efd (c # cs) =
     (case do_call H efd c of
        None \<Rightarrow> None
      | Some efd' \<Rightarrow> do_calls H efd' cs)"

subsection \<open>The read semaphore along a run\<close>


subsection \<open>Sample values\<close>

text \<open>
  One choice of the header constants, with the flag bits and the event bits pairwise
  disjoint, and a pool of one unused slot; the concrete runs below use them.
\<close>

definition hdr0 :: hdr where
  "hdr0 = \<lparr>EFD_IN_USE = 0x1, EFD_SEMAPHORE = 0x2, EFD_NONBLOCK = 0x4000,
           EFD_FLAGS_SET = 0x4002, ZSOCK_POLLIN = 1, ZSOCK_POLLOUT = 4,
           K_POLL_TYPE_SEM_AVAILABLE = 2, K_POLL_MODE_NOTIFY_ONLY = 0,
           K_POLL_STATE_NOT_READY = 0\<rparr>"

definition efd0 :: eventfd_s where
  "efd0 = \<lparr>read_sem = k_sem_init 0 0, write_sem = k_sem_init 0 0, cnt = 0, flags = 0\<rparr>"

definition sys0 :: sys where
  "sys0 = \<lparr>efds = [efd0], fdtable = Map.empty\<rparr>"

definition pm0 :: poll_mem where
  "pm0 = \<lparr>pfd = \<lparr>pfd_fd = 3, events = 5, revents = 0\<rparr>,
          slots = [\<lparr>obj = Some (Read_sem_of 0), type = 2, mode = 0, state = 2\<rparr>],
          pev = 0\<rparr>"

section \<open>Auxiliary facts\<close>

subsection \<open>The two loops and the counter arithmetic\<close>

declare eventfd_read_loop.simps [simp del] eventfd_write_loop.simps [simp del]

lemma UINT64_MAX_minus1: "UINT64_MAX = - 1"
  by (simp add: UINT64_MAX_def)

lemma read_loop_nonzero:
  "cnt efd \<noteq> 0 \<Longrightarrow> eventfd_read_loop H nb efd =
     (let count = (if flags efd AND EFD_SEMAPHORE H \<noteq> 0 then 1 else cnt efd);
          efd1 = efd\<lparr>cnt := cnt efd - count\<rparr>;
          efd2 = (if cnt efd1 \<noteq> 0 then efd1\<lparr>read_sem := k_sem_give (read_sem efd1)\<rparr> else efd1)
      in (efd2, Some (Inr count)))"
  by (subst eventfd_read_loop.simps) simp

lemma read_loop_zero_nonblock:
  "cnt efd = 0 \<Longrightarrow> eventfd_read_loop H True efd = (efd, Some (Inl EAGAIN))"
  by (subst eventfd_read_loop.simps) simp


lemma write_loop_fits:
  "\<not> UINT64_MAX - count \<le> cnt efd \<Longrightarrow> eventfd_write_loop nb count efd =
     (efd\<lparr>cnt := cnt efd + count, read_sem := k_sem_give (read_sem efd)\<rparr>, Some (Inr ()))"
  by (subst eventfd_write_loop.simps) simp

lemma write_loop_overflow_nonblock:
  "UINT64_MAX - count \<le> cnt efd \<Longrightarrow> eventfd_write_loop True count efd =
     (efd\<lparr>read_sem := k_sem_give (read_sem efd)\<rparr>, Some (Inl EAGAIN))"
  by (subst eventfd_write_loop.simps) simp



lemma read_op_small:
  "sz < sizeof_eventfd_t \<Longrightarrow> eventfd_read_op H efd sz = (efd, Some (Inl EINVAL))"
  by (simp add: eventfd_read_op_def)

lemma read_op_nonzero:
  "sizeof_eventfd_t \<le> sz \<Longrightarrow> cnt efd \<noteq> 0 \<Longrightarrow>
   eventfd_read_op H efd sz =
     (let count = (if flags efd AND EFD_SEMAPHORE H \<noteq> 0 then 1 else cnt efd);
          efd0 = efd\<lparr>read_sem := k_sem_take_no_wait (read_sem efd)\<rparr>;
          efd1 = efd0\<lparr>cnt := cnt efd - count\<rparr>;
          efd2 = (if cnt efd1 \<noteq> 0 then efd1\<lparr>read_sem := k_sem_give (read_sem efd1)\<rparr> else efd1)
      in (efd2\<lparr>write_sem := k_sem_give (write_sem efd2)\<rparr>, Some (Inr (sizeof_eventfd_t, count))))"
  by (simp add: eventfd_read_op_def read_loop_nonzero Let_def)

lemma read_op_zero_nonblock:
  "sizeof_eventfd_t \<le> sz \<Longrightarrow> cnt efd = 0 \<Longrightarrow> flags efd AND EFD_NONBLOCK H \<noteq> 0 \<Longrightarrow>
   eventfd_read_op H efd sz =
     (efd\<lparr>read_sem := k_sem_take_no_wait (read_sem efd)\<rparr>, Some (Inl EAGAIN))"
  by (simp add: eventfd_read_op_def read_loop_zero_nonblock)


lemma write_op_small:
  "sz < sizeof_eventfd_t \<Longrightarrow> eventfd_write_op H efd count sz = (efd, Some (Inl EINVAL))"
  by (simp add: eventfd_write_op_def)

lemma write_op_sentinel:
  "eventfd_write_op H efd UINT64_MAX sz = (efd, Some (Inl EINVAL))"
  by (simp add: eventfd_write_op_def)

lemma write_op_zero:
  "sizeof_eventfd_t \<le> sz \<Longrightarrow> eventfd_write_op H efd 0 sz = (efd, Some (Inr sizeof_eventfd_t))"
  by (simp add: eventfd_write_op_def UINT64_MAX_def)

lemma write_op_fits:
  "sizeof_eventfd_t \<le> sz \<Longrightarrow> count \<noteq> 0 \<Longrightarrow> count \<noteq> UINT64_MAX \<Longrightarrow> \<not> UINT64_MAX - count \<le> cnt efd \<Longrightarrow>
   eventfd_write_op H efd count sz =
     (efd\<lparr>cnt := cnt efd + count, read_sem := k_sem_give (read_sem efd)\<rparr>, Some (Inr sizeof_eventfd_t))"
  by (simp add: eventfd_write_op_def write_loop_fits)

lemma write_op_overflow_nonblock:
  "sizeof_eventfd_t \<le> sz \<Longrightarrow> count \<noteq> 0 \<Longrightarrow> count \<noteq> UINT64_MAX \<Longrightarrow> UINT64_MAX - count \<le> cnt efd \<Longrightarrow>
   flags efd AND EFD_NONBLOCK H \<noteq> 0 \<Longrightarrow>
   eventfd_write_op H efd count sz =
     (efd\<lparr>read_sem := k_sem_give (read_sem efd)\<rparr>, Some (Inl EAGAIN))"
  by (simp add: eventfd_write_op_def write_loop_overflow_nonblock)


lemma no_overflow_unat:
  fixes c v :: eventfd_t
  assumes "\<not> UINT64_MAX - v \<le> c"
  shows "unat (c + v) = unat c + unat v" and "c + v \<noteq> UINT64_MAX"
proof -
  have "v \<le> UINT64_MAX" by (simp add: UINT64_MAX_minus1)
  then have "unat (UINT64_MAX - v) = unat UINT64_MAX - unat v" by (rule unat_sub)
  moreover have m: "unat UINT64_MAX = 2 ^ 64 - 1" by (simp add: UINT64_MAX_def)
  moreover from assms have "unat c < unat (UINT64_MAX - v)" by (simp add: word_le_nat_alt)
  ultimately have lt: "unat c + unat v < 2 ^ 64 - 1" by simp
  then have "unat c + unat v < 2 ^ LENGTH(64)" by simp
  then show u: "unat (c + v) = unat c + unat v" by (simp only: unat_add_lem)
  from lt u m show "c + v \<noteq> UINT64_MAX" by auto
qed

lemma overflow_iff_unat:
  fixes c v :: eventfd_t
  shows "(UINT64_MAX - v \<le> c) = (2 ^ 64 - 1 \<le> unat c + unat v)"
proof -
  have "v \<le> UINT64_MAX" by (simp add: UINT64_MAX_minus1)
  then have "unat (UINT64_MAX - v) = unat UINT64_MAX - unat v" by (rule unat_sub)
  moreover have m: "unat UINT64_MAX = 2 ^ 64 - 1" by (simp add: UINT64_MAX_def)
  moreover have "unat v < 2 ^ 64" using unsigned_less [of v, where 'a = nat] by simp
  ultimately show ?thesis by (auto simp add: word_le_nat_alt)
qed


lemma read_loop_frame:
  "eventfd_read_loop H nb efd = (efd', r) \<Longrightarrow>
   flags efd' = flags efd \<and>
   (case r of
      None \<Rightarrow> cnt efd' = cnt efd
    | Some (Inl e) \<Rightarrow> e = EAGAIN \<and> cnt efd' = cnt efd
    | Some (Inr c) \<Rightarrow> cnt efd \<noteq> 0 \<and> cnt efd' = cnt efd - c \<and> (c = 1 \<or> c = cnt efd))"
proof (induction H nb efd arbitrary: efd' r rule: eventfd_read_loop.induct)
  case (1 H nonblock efd)
  show ?case
  proof (cases "cnt efd = 0")
    case False
    with "1.prems" show ?thesis by (auto simp: read_loop_nonzero Let_def split: if_splits)
  next
    case True
    show ?thesis
    proof (cases nonblock)
      case True
      with \<open>cnt efd = 0\<close> "1.prems" show ?thesis by (auto simp: read_loop_zero_nonblock)
    next
      case False
      show ?thesis
      proof (cases "k_sem_take_forever (read_sem efd)")
        case None
        with False \<open>cnt efd = 0\<close> "1.prems" show ?thesis
          by (subst (asm) eventfd_read_loop.simps) auto
      next
        case (Some s)
        with False \<open>cnt efd = 0\<close> "1.prems"
        have "eventfd_read_loop H nonblock (efd\<lparr>read_sem := s\<rparr>) = (efd', r)"
          by (subst (asm) eventfd_read_loop.simps) simp
        moreover have "\<not> (nonblock \<and> cnt efd = 0)" using False by simp
        ultimately have "flags efd' = flags (efd\<lparr>read_sem := s\<rparr>) \<and>
          (case r of
             None \<Rightarrow> cnt efd' = cnt (efd\<lparr>read_sem := s\<rparr>)
           | Some (Inl e) \<Rightarrow> e = EAGAIN \<and> cnt efd' = cnt (efd\<lparr>read_sem := s\<rparr>)
           | Some (Inr c) \<Rightarrow> cnt (efd\<lparr>read_sem := s\<rparr>) \<noteq> 0 \<and> cnt efd' = cnt (efd\<lparr>read_sem := s\<rparr>) - c
               \<and> (c = 1 \<or> c = cnt (efd\<lparr>read_sem := s\<rparr>)))"
          using \<open>cnt efd = 0\<close> Some by (intro "1.IH")
        then show ?thesis by (simp split: option.splits sum.splits)
      qed
    qed
  qed
qed

lemma write_loop_frame:
  "eventfd_write_loop nb count efd = (efd', r) \<Longrightarrow>
   flags efd' = flags efd \<and>
   (case r of
      None \<Rightarrow> cnt efd' = cnt efd
    | Some (Inl e) \<Rightarrow> e = EAGAIN \<and> nb \<and> UINT64_MAX - count \<le> cnt efd \<and> cnt efd' = cnt efd
    | Some (Inr u) \<Rightarrow> \<not> UINT64_MAX - count \<le> cnt efd \<and> cnt efd' = cnt efd + count)"
proof (induction nb count efd arbitrary: efd' r rule: eventfd_write_loop.induct)
  case (1 nonblock count efd)
  show ?case
  proof (cases "UINT64_MAX - count \<le> cnt efd")
    case False
    with "1.prems" show ?thesis by (auto simp: write_loop_fits)
  next
    case True
    show ?thesis
    proof (cases nonblock)
      case nb: True
      with True "1.prems" show ?thesis by (auto simp: write_loop_overflow_nonblock)
    next
      case False
      show ?thesis
      proof (cases "k_sem_take_forever (write_sem efd)")
        case None
        with False True "1.prems" show ?thesis
          by (subst (asm) eventfd_write_loop.simps) auto
      next
        case (Some s)
        with False True "1.prems"
        have "eventfd_write_loop nonblock count (efd\<lparr>write_sem := s\<rparr>) = (efd', r)"
          by (subst (asm) eventfd_write_loop.simps) simp
        moreover have "\<not> (nonblock \<and> UINT64_MAX - count \<le> cnt efd)" using False by simp
        ultimately have "flags efd' = flags (efd\<lparr>write_sem := s\<rparr>) \<and>
          (case r of
             None \<Rightarrow> cnt efd' = cnt (efd\<lparr>write_sem := s\<rparr>)
           | Some (Inl e) \<Rightarrow> e = EAGAIN \<and> nonblock \<and> UINT64_MAX - count \<le> cnt (efd\<lparr>write_sem := s\<rparr>)
               \<and> cnt efd' = cnt (efd\<lparr>write_sem := s\<rparr>)
           | Some (Inr u) \<Rightarrow> \<not> UINT64_MAX - count \<le> cnt (efd\<lparr>write_sem := s\<rparr>)
               \<and> cnt efd' = cnt (efd\<lparr>write_sem := s\<rparr>) + count)"
          using True Some by (intro "1.IH") simp_all
        then show ?thesis by (simp split: option.splits sum.splits)
      qed
    qed
  qed
qed

lemma read_op_frame:
  assumes "eventfd_read_op H efd sz = (efd', r)"
  shows "flags efd' = flags efd \<and>
   (case r of
      None \<Rightarrow> cnt efd' = cnt efd
    | Some (Inl e) \<Rightarrow> (e = EINVAL \<or> e = EAGAIN) \<and> cnt efd' = cnt efd
    | Some (Inr (n, c)) \<Rightarrow> n = sizeof_eventfd_t \<and> cnt efd \<noteq> 0 \<and> cnt efd' = cnt efd - c \<and> (c = 1 \<or> c = cnt efd))"
proof (cases "sz < sizeof_eventfd_t")
  case True
  with assms show ?thesis by (auto simp: read_op_small)
next
  case False
  let ?e = "efd\<lparr>read_sem := k_sem_take_no_wait (read_sem efd)\<rparr>"
  obtain e1 r1 where l: "eventfd_read_loop H (flags efd AND EFD_NONBLOCK H \<noteq> 0) ?e = (e1, r1)"
    by (cases "eventfd_read_loop H (flags efd AND EFD_NONBLOCK H \<noteq> 0) ?e")
  from read_loop_frame [OF l] False assms l show ?thesis
    by (auto simp: eventfd_read_op_def split: option.splits sum.splits)
qed

lemma write_op_frame:
  assumes "eventfd_write_op H efd count sz = (efd', r)"
  shows "flags efd' = flags efd \<and>
   (case r of
      None \<Rightarrow> cnt efd' = cnt efd
    | Some (Inl e) \<Rightarrow> (e = EINVAL \<or> e = EAGAIN) \<and> cnt efd' = cnt efd
    | Some (Inr n) \<Rightarrow> n = sizeof_eventfd_t \<and>
        (count = 0 \<and> cnt efd' = cnt efd \<or> \<not> UINT64_MAX - count \<le> cnt efd \<and> cnt efd' = cnt efd + count))"
proof -
  obtain e1 r1 where l: "eventfd_write_loop (flags efd AND EFD_NONBLOCK H \<noteq> 0) count efd = (e1, r1)"
    by (cases "eventfd_write_loop (flags efd AND EFD_NONBLOCK H \<noteq> 0) count efd")
  from write_loop_frame [OF l] assms l show ?thesis
    by (auto simp: eventfd_write_op_def split: option.splits sum.splits if_splits)
qed

subsection \<open>Creation\<close>

lemma find_free_bound:
  "find_free H es k = Some i \<Longrightarrow>
   k \<le> i \<and> i < k + length es \<and> flags (es ! (i - k)) AND EFD_IN_USE H = 0"
proof (induction es arbitrary: k)
  case Nil
  then show ?case by simp
next
  case (Cons e es)
  show ?case
  proof (cases "flags e AND EFD_IN_USE H = 0")
    case True
    with Cons.prems show ?thesis by simp
  next
    case False
    with Cons.prems have "find_free H es (Suc k) = Some i" by simp
    from Cons.IH [OF this] show ?thesis by (auto simp: nth_Cons')
  qed
qed

lemma eventfd_success:
  assumes "eventfd H rsv st initval fl = (st', Inr fd)"
  shows "\<exists>i. find_free H (efds st) 0 = Some i \<and> i < length (efds st) \<and>
           fl AND NOT (EFD_FLAGS_SET H) = 0 \<and> rsv = Inr fd \<and>
           fdtable st' fd = Some i \<and> length (efds st') = length (efds st) \<and>
           efds st' ! i = (efds st ! i)
             \<lparr>read_sem := k_sem_init (if (ucast initval :: eventfd_t) \<noteq> 0 then 1 else 0) 1,
              write_sem := k_sem_init 0 1,
              cnt := ucast initval,
              flags := EFD_IN_USE H OR fl\<rparr>"
proof -
  from assms have fl: "fl AND NOT (EFD_FLAGS_SET H) = 0"
    by (auto simp: eventfd_def split: if_splits)
  from assms fl obtain i where i: "find_free H (efds st) 0 = Some i"
    by (auto simp: eventfd_def split: option.splits)
  from find_free_bound [OF i] have b: "i < length (efds st)" by simp
  from assms fl i have r: "rsv = Inr fd"
    by (auto simp: eventfd_def Let_def split: sum.splits)
  from assms fl i r b show ?thesis
    by (auto simp: eventfd_def Let_def)
qed

lemma unat_ucast_32_64: "unat (ucast (w :: 32 word) :: eventfd_t) = unat w"
proof -
  have "unat w < 2 ^ 32" using unsigned_less [of w, where 'a = nat] by simp
  then have "unat w < 2 ^ 64" by simp
  then show ?thesis by (simp add: unsigned_ucast_eq take_bit_nat_eq_self)
qed

lemma ucast_32_64_zero: "((ucast (w :: 32 word) :: eventfd_t) = 0) = (w = 0)"
proof -
  have "((ucast w :: eventfd_t) = 0) = (unat (ucast w :: eventfd_t) = 0)" by (simp add: unat_eq_0)
  also have "\<dots> = (w = 0)" by (simp only: unat_ucast_32_64 unat_eq_0)
  finally show ?thesis .
qed

lemma ucast_32_64_not_max: "(ucast (w :: 32 word) :: eventfd_t) \<noteq> UINT64_MAX"
proof
  assume "(ucast w :: eventfd_t) = UINT64_MAX"
  then have "unat (ucast w :: eventfd_t) = unat UINT64_MAX" by simp
  then have "unat w = 2 ^ 64 - 1" by (simp add: unat_ucast_32_64 UINT64_MAX_def)
  moreover have "unat w < 2 ^ 32" using unsigned_less [of w, where 'a = nat] by simp
  ultimately show False by simp
qed

subsection \<open>Calls keep the counter below the reserved value\<close>

lemma ioctl_cnt:
  "eventfd_ioctl_op H ob (efd, m) req = Some ((efd', m'), r) \<Longrightarrow> cnt efd' = cnt efd"
  by (cases req) (auto split: if_splits option.splits)

lemma do_call_inv:
  assumes "cnt efd \<noteq> UINT64_MAX" and "do_call H efd c = Some efd'"
  shows "cnt efd' \<noteq> UINT64_MAX"
proof (cases c)
  case (Read sz)
  with assms(2) have e: "efd' = fst (eventfd_read_op H efd sz)" by simp
  show ?thesis
  proof (cases "snd (eventfd_read_op H efd sz)")
    case None
    with read_op_frame [OF prod.collapse [symmetric], of H efd sz] assms(1) e show ?thesis by simp
  next
    case (Some a)
    show ?thesis
    proof (cases a)
      case (Inl x)
      with Some read_op_frame [OF prod.collapse [symmetric], of H efd sz] assms(1) e show ?thesis by simp
    next
      case (Inr p)
      obtain n v where p: "p = (n, v)" by (cases p)
      with Inr Some read_op_frame [OF prod.collapse [symmetric], of H efd sz] e
      have nz: "cnt efd \<noteq> 0" and d: "cnt efd' = cnt efd - v" and v: "v = 1 \<or> v = cnt efd" by simp_all
      from v show ?thesis
      proof
        assume "v = 1"
        with d nz show ?thesis by (auto simp: UINT64_MAX_minus1)
      next
        assume "v = cnt efd"
        with d show ?thesis by (simp add: UINT64_MAX_def)
      qed
    qed
  qed
next
  case (Write count sz)
  with assms(2) have e: "efd' = fst (eventfd_write_op H efd count sz)" by simp
  show ?thesis
  proof (cases "snd (eventfd_write_op H efd count sz)")
    case None
    with write_op_frame [OF prod.collapse [symmetric], of H efd count sz] assms(1) e show ?thesis by simp
  next
    case (Some a)
    show ?thesis
    proof (cases a)
      case (Inl x)
      with Some write_op_frame [OF prod.collapse [symmetric], of H efd count sz] assms(1) e show ?thesis by simp
    next
      case (Inr n)
      with Some write_op_frame [OF prod.collapse [symmetric], of H efd count sz] e
      have "count = 0 \<and> cnt efd' = cnt efd \<or> \<not> UINT64_MAX - count \<le> cnt efd \<and> cnt efd' = cnt efd + count"
        by simp
      with assms(1) no_overflow_unat(2) [of count "cnt efd"] show ?thesis by auto
    qed
  qed
next
  case (Ioctl ob m req)
  with assms(2) obtain m' r where "eventfd_ioctl_op H ob (efd, m) req = Some ((efd', m'), r)"
    by (auto split: option.splits)
  from ioctl_cnt [OF this] assms(1) show ?thesis by simp
qed

lemma do_calls_inv:
  "cnt efd \<noteq> UINT64_MAX \<Longrightarrow> do_calls H efd cs = Some efd' \<Longrightarrow> cnt efd' \<noteq> UINT64_MAX"
proof (induction cs arbitrary: efd)
  case Nil
  then show ?case by simp
next
  case (Cons c cs)
  from Cons.prems(2) obtain e1 where c: "do_call H efd c = Some e1" and r: "do_calls H e1 cs = Some efd'"
    by (auto split: option.splits)
  from do_call_inv [OF Cons.prems(1) c] have "cnt e1 \<noteq> UINT64_MAX" .
  from Cons.IH [OF this r] show ?case .
qed

subsection \<open>Flag and event bits\<close>

lemma or_and_right: "(a OR b) AND b = (b :: 'a :: len word)"
  by (rule bit_word_eqI) (auto simp: bit_simps)

lemma or_and_disjoint: "b AND c = 0 \<Longrightarrow> (a OR b) AND c = a AND (c :: 'a :: len word)"
  by (simp add: bit.conj_disj_distrib2)

lemma and_nonzero_right: "a AND b \<noteq> 0 \<Longrightarrow> b \<noteq> (0 :: 'a :: len word)"
  by auto

text \<open>
  \<open>F_SETFL\<close> accepts only bits of \<open>EFD_FLAGS_SET\<close> and stores them as they are. Whenever
  \<open>EFD_IN_USE\<close> lies outside \<open>EFD_FLAGS_SET\<close>, the stored flags have \<open>EFD_IN_USE\<close> clear.
\<close>

lemma setfl_stores_flags_verbatim:
  "fl AND NOT (EFD_FLAGS_SET H) = 0 \<Longrightarrow> EFD_IN_USE H AND EFD_FLAGS_SET H = 0 \<Longrightarrow>
   eventfd_ioctl_op H ob (efd, m) (F_SETFL fl) = Some ((efd\<lparr>flags := fl\<rparr>, m), Inr 0) \<and>
   flags (efd\<lparr>flags := fl\<rparr>) AND EFD_IN_USE H = 0"
proof -
  assume a: "fl AND NOT (EFD_FLAGS_SET H) = 0" and b: "EFD_IN_USE H AND EFD_FLAGS_SET H = 0"
  have "fl AND EFD_IN_USE H = 0"
  proof (rule bit_word_eqI)
    fix n assume "n < LENGTH(32)"
    from a have "\<not> bit (fl AND NOT (EFD_FLAGS_SET H)) n" by simp
    moreover from b have "\<not> bit (EFD_IN_USE H AND EFD_FLAGS_SET H) n" by simp
    ultimately show "bit (fl AND EFD_IN_USE H) n = bit (0 :: 32 word) n"
      using \<open>n < LENGTH(32)\<close> by (auto simp: bit_simps)
  qed
  with a show ?thesis by simp
qed

subsection \<open>Failing calls\<close>

text \<open>
  For every value of the object, whatever its semaphores hold, a failing read or write
  leaves the counter and the flags as they were.
\<close>

lemma failure_keeps_cnt_and_flags:
  "(snd (eventfd_read_op H efd sz) = Some (Inl e) \<longrightarrow>
      (e = EINVAL \<or> e = EAGAIN) \<and>
      cnt (fst (eventfd_read_op H efd sz)) = cnt efd \<and>
      flags (fst (eventfd_read_op H efd sz)) = flags efd) \<and>
   (snd (eventfd_write_op H wefd count wsz) = Some (Inl we) \<longrightarrow>
      (we = EINVAL \<or> we = EAGAIN) \<and>
      cnt (fst (eventfd_write_op H wefd count wsz)) = cnt wefd \<and>
      flags (fst (eventfd_write_op H wefd count wsz)) = flags wefd)"
  using read_op_frame [OF prod.collapse [symmetric], of H efd sz]
    write_op_frame [OF prod.collapse [symmetric], of H wefd count wsz]
  by (auto split: option.splits sum.splits)















section \<open>The claims\<close>

text \<open>
  Claim C7. For every event object and every buffer of at least 8 bytes that holds the
  value 0, \<open>eventfd_write_op\<close> returns 8 at once and leaves the whole object as it was:
  the counter, the flags and both semaphores, so \<open>read_sem\<close> is not given.
\<close>

theorem write_zero_is_noop:
  "sizeof_eventfd_t \<le> sz \<Longrightarrow> eventfd_write_op H efd 0 sz = (efd, Some (Inr 8))"
  by (simp add: write_op_zero) (simp add: sizeof_eventfd_t_def)

theorem write_zero_is_noop_witness:
  "sizeof_eventfd_t \<le> 8 \<and>
   eventfd_write_op hdr0 (efd0\<lparr>cnt := 5, flags := 0x4001\<rparr>) 0 8 = (efd0\<lparr>cnt := 5, flags := 0x4001\<rparr>, Some (Inr 8))"
proof -
  have h: "sizeof_eventfd_t \<le> 8" by (simp add: sizeof_eventfd_t_def)
  from h write_zero_is_noop [OF h] show ?thesis by simp
qed

text \<open>
  Claim C8. A read with a buffer size below 8 fails with \<open>EINVAL\<close>; a write with a
  buffer size below 8 fails with \<open>EINVAL\<close>; a write of the reserved value
  \<open>UINT64_MAX\<close> fails with \<open>EINVAL\<close> whatever the size; and every read or write that
  succeeds returns exactly 8.
\<close>

theorem size_and_sentinel_checks:
  "(rsz < 8 \<longrightarrow> eventfd_read_op H efd rsz = (efd, Some (Inl EINVAL))) \<and>
   (wsz < 8 \<longrightarrow> eventfd_write_op H efd count wsz = (efd, Some (Inl EINVAL))) \<and>
   eventfd_write_op H efd UINT64_MAX sz = (efd, Some (Inl EINVAL)) \<and>
   (snd (eventfd_read_op H refd sz) = Some (Inr (rn, rv)) \<longrightarrow> rn = 8) \<and>
   (snd (eventfd_write_op H wefd wcount sz) = Some (Inr wn) \<longrightarrow> wn = 8)"
proof (intro conjI impI)
  show "eventfd_read_op H efd rsz = (efd, Some (Inl EINVAL))" if "rsz < 8"
    using that by (simp add: read_op_small sizeof_eventfd_t_def)
  show "eventfd_write_op H efd count wsz = (efd, Some (Inl EINVAL))" if "wsz < 8"
    using that by (simp add: write_op_small sizeof_eventfd_t_def)
  show "eventfd_write_op H efd UINT64_MAX sz = (efd, Some (Inl EINVAL))"
    by (rule write_op_sentinel)
  show "rn = 8" if "snd (eventfd_read_op H refd sz) = Some (Inr (rn, rv))"
    using that read_op_frame [OF prod.collapse [symmetric], of H refd sz]
    by (simp add: sizeof_eventfd_t_def)
  show "wn = 8" if "snd (eventfd_write_op H wefd wcount sz) = Some (Inr wn)"
    using that write_op_frame [OF prod.collapse [symmetric], of H wefd wcount sz]
    by (simp add: sizeof_eventfd_t_def)
qed

theorem size_and_sentinel_checks_witness:
  "(7::nat) < 8 \<and>
   eventfd_read_op hdr0 efd0 7 = (efd0, Some (Inl EINVAL)) \<and>
   eventfd_write_op hdr0 efd0 1 7 = (efd0, Some (Inl EINVAL)) \<and>
   eventfd_write_op hdr0 efd0 UINT64_MAX 8 = (efd0, Some (Inl EINVAL)) \<and>
   snd (eventfd_read_op hdr0 (efd0\<lparr>cnt := 5\<rparr>) 8) = Some (Inr (8, 5)) \<and>
   snd (eventfd_write_op hdr0 efd0 5 8) = Some (Inr 8)"
proof -
  have r: "snd (eventfd_read_op hdr0 (efd0\<lparr>cnt := 5\<rparr>) 8) = Some (Inr (8, 5))"
    by (simp add: read_op_nonzero sizeof_eventfd_t_def efd0_def hdr0_def Let_def)
  have w: "snd (eventfd_write_op hdr0 efd0 5 8) = Some (Inr 8)"
    by (simp add: write_op_fits sizeof_eventfd_t_def efd0_def UINT64_MAX_def)
  note t = size_and_sentinel_checks [where H = hdr0 and efd = efd0 and rsz = 7 and wsz = 7
      and count = 1 and sz = 8 and refd = "efd0\<lparr>cnt := 5\<rparr>" and rn = 8 and rv = 5
      and wefd = efd0 and wcount = 5 and wn = 8]
  from t have "eventfd_read_op hdr0 efd0 7 = (efd0, Some (Inl EINVAL))"
    and "eventfd_write_op hdr0 efd0 1 7 = (efd0, Some (Inl EINVAL))"
    and "eventfd_write_op hdr0 efd0 UINT64_MAX 8 = (efd0, Some (Inl EINVAL))"
    by simp_all
  with r w show ?thesis by simp
qed




text \<open>
  Claim C4. For an event object with \<open>EFD_NONBLOCK\<close> set, counter \<open>c\<close>, a buffer of at
  least 8 bytes and a value \<open>v\<close> with \<open>0 < v < UINT64_MAX\<close>, the write fails with
  \<open>EAGAIN\<close> exactly when \<open>UINT64_MAX - v \<le> c\<close>, that is when \<open>c + v\<close> would reach the
  reserved value, the boundary \<open>UINT64_MAX - v = c\<close> included; otherwise it succeeds and
  the counter is \<open>c + v\<close>, without wrap-around.
\<close>

theorem write_nonblocking_overflow:
  assumes "flags efd AND EFD_NONBLOCK H \<noteq> 0" and "sizeof_eventfd_t \<le> sz"
    and "v \<noteq> 0" and "v \<noteq> UINT64_MAX"
  shows "(snd (eventfd_write_op H efd v sz) = Some (Inl EAGAIN)) = (UINT64_MAX - v \<le> cnt efd) \<and>
    (UINT64_MAX - v \<le> cnt efd) = (2 ^ 64 - 1 \<le> unat (cnt efd) + unat v) \<and>
    (\<not> UINT64_MAX - v \<le> cnt efd \<longrightarrow>
       (\<exists>efd'. eventfd_write_op H efd v sz = (efd', Some (Inr 8)) \<and>
          cnt efd' = cnt efd + v \<and> unat (cnt efd') = unat (cnt efd) + unat v \<and>
          flags efd' = flags efd))"
proof (intro conjI impI)
  show "(UINT64_MAX - v \<le> cnt efd) = (2 ^ 64 - 1 \<le> unat (cnt efd) + unat v)"
    by (rule overflow_iff_unat)
  show "(snd (eventfd_write_op H efd v sz) = Some (Inl EAGAIN)) = (UINT64_MAX - v \<le> cnt efd)"
  proof (cases "UINT64_MAX - v \<le> cnt efd")
    case True
    with assms show ?thesis by (simp add: write_op_overflow_nonblock)
  next
    case False
    with assms show ?thesis by (simp add: write_op_fits)
  qed
  show "\<exists>efd'. eventfd_write_op H efd v sz = (efd', Some (Inr 8)) \<and>
          cnt efd' = cnt efd + v \<and> unat (cnt efd') = unat (cnt efd) + unat v \<and>
          flags efd' = flags efd"
    if "\<not> UINT64_MAX - v \<le> cnt efd"
    using that assms by (simp add: write_op_fits no_overflow_unat sizeof_eventfd_t_def)
qed

theorem write_nonblocking_overflow_witness:
  "flags (efd0\<lparr>cnt := 5, flags := 0x4001\<rparr>) AND EFD_NONBLOCK hdr0 \<noteq> 0 \<and>
   UINT64_MAX - (UINT64_MAX - 5) \<le> cnt (efd0\<lparr>cnt := 5, flags := 0x4001\<rparr>) \<and>
   snd (eventfd_write_op hdr0 (efd0\<lparr>cnt := 5, flags := 0x4001\<rparr>) (UINT64_MAX - 5) 8) = Some (Inl EAGAIN) \<and>
   \<not> UINT64_MAX - (UINT64_MAX - 6) \<le> cnt (efd0\<lparr>cnt := 5, flags := 0x4001\<rparr>) \<and>
   (\<exists>efd'. eventfd_write_op hdr0 (efd0\<lparr>cnt := 5, flags := 0x4001\<rparr>) (UINT64_MAX - 6) 8 = (efd', Some (Inr 8)) \<and>
      cnt efd' = UINT64_MAX - 1)"
proof -
  let ?e = "efd0\<lparr>cnt := 5, flags := 0x4001\<rparr>"
  have nb: "flags ?e AND EFD_NONBLOCK hdr0 \<noteq> 0" by (simp add: hdr0_def)
  have sz: "sizeof_eventfd_t \<le> 8" by (simp add: sizeof_eventfd_t_def)
  have v1: "UINT64_MAX - 5 \<noteq> 0" "UINT64_MAX - 5 \<noteq> UINT64_MAX" by (simp_all add: UINT64_MAX_def)
  have v2: "UINT64_MAX - 6 \<noteq> 0" "UINT64_MAX - 6 \<noteq> UINT64_MAX" by (simp_all add: UINT64_MAX_def)
  have o1: "UINT64_MAX - (UINT64_MAX - 5) \<le> cnt ?e" by (simp add: UINT64_MAX_def)
  have o2: "\<not> UINT64_MAX - (UINT64_MAX - 6) \<le> cnt ?e" by (simp add: UINT64_MAX_def)
  from write_nonblocking_overflow [OF nb sz v1] o1
  have a: "snd (eventfd_write_op hdr0 ?e (UINT64_MAX - 5) 8) = Some (Inl EAGAIN)" by blast
  from write_nonblocking_overflow [OF nb sz v2] o2
  obtain efd' where "eventfd_write_op hdr0 ?e (UINT64_MAX - 6) 8 = (efd', Some (Inr 8))"
    and "cnt efd' = cnt ?e + (UINT64_MAX - 6)" by blast
  then have b: "\<exists>efd'. eventfd_write_op hdr0 ?e (UINT64_MAX - 6) 8 = (efd', Some (Inr 8)) \<and>
      cnt efd' = UINT64_MAX - 1" by (simp add: UINT64_MAX_def)
  from nb o1 a o2 b show ?thesis by blast
qed

text \<open>
  Claim C2. In default mode (\<open>EFD_SEMAPHORE\<close> clear), with a buffer of at least 8 bytes, a
  read of an object whose counter holds a nonzero \<open>c\<close> succeeds, returns exactly \<open>c\<close> and
  leaves the counter at 0. In particular, on an object whose counter is 0 a write of \<open>v\<close>
  (\<open>0 < v < UINT64_MAX\<close>) followed at once by a read returns exactly \<open>v\<close>; and a read
  of the object that a successful \<open>eventfd\<close> with a nonzero \<open>initval\<close> has just bound to
  the returned handle returns \<open>initval\<close> and leaves the counter at 0.
\<close>

theorem read_drains_counter:
  assumes "sizeof_eventfd_t \<le> sz"
  shows
   "(flags efd AND EFD_SEMAPHORE H = 0 \<and> cnt efd \<noteq> 0 \<longrightarrow>
       (\<exists>efd'. eventfd_read_op H efd sz = (efd', Some (Inr (8, cnt efd))) \<and> cnt efd' = 0)) \<and>
    (flags wefd AND EFD_SEMAPHORE H = 0 \<and> cnt wefd = 0 \<and> v \<noteq> 0 \<and> v \<noteq> UINT64_MAX \<longrightarrow>
       (\<exists>efd1 efd2. eventfd_write_op H wefd v sz = (efd1, Some (Inr 8)) \<and>
          eventfd_read_op H efd1 sz = (efd2, Some (Inr (8, v))) \<and> cnt efd2 = 0)) \<and>
    (eventfd H rsv st initval fl = (st', Inr fd) \<and> fdtable st' fd = Some i \<and>
     flags (efds st' ! i) AND EFD_SEMAPHORE H = 0 \<and> initval \<noteq> 0 \<longrightarrow>
       (\<exists>efd'. eventfd_read_op H (efds st' ! i) sz = (efd', Some (Inr (8, ucast initval))) \<and>
          cnt efd' = 0))"
proof (intro conjI impI)
  show "\<exists>efd'. eventfd_read_op H efd sz = (efd', Some (Inr (8, cnt efd))) \<and> cnt efd' = 0"
    if "flags efd AND EFD_SEMAPHORE H = 0 \<and> cnt efd \<noteq> 0"
    using that assms by (simp add: read_op_nonzero Let_def sizeof_eventfd_t_def)
  show "\<exists>efd1 efd2. eventfd_write_op H wefd v sz = (efd1, Some (Inr 8)) \<and>
          eventfd_read_op H efd1 sz = (efd2, Some (Inr (8, v))) \<and> cnt efd2 = 0"
    if h: "flags wefd AND EFD_SEMAPHORE H = 0 \<and> cnt wefd = 0 \<and> v \<noteq> 0 \<and> v \<noteq> UINT64_MAX"
  proof -
    from h have "\<not> UINT64_MAX - v \<le> cnt wefd" by (auto simp: UINT64_MAX_minus1)
    with h assms have w: "eventfd_write_op H wefd v sz =
        (wefd\<lparr>cnt := cnt wefd + v, read_sem := k_sem_give (read_sem wefd)\<rparr>, Some (Inr sizeof_eventfd_t))"
      by (simp add: write_op_fits)
    let ?e = "wefd\<lparr>cnt := cnt wefd + v, read_sem := k_sem_give (read_sem wefd)\<rparr>"
    from h have "cnt ?e \<noteq> 0" "cnt ?e = v" "flags ?e AND EFD_SEMAPHORE H = 0" by simp_all
    with assms have "\<exists>efd2. eventfd_read_op H ?e sz = (efd2, Some (Inr (8, v))) \<and> cnt efd2 = 0"
      by (simp add: read_op_nonzero Let_def sizeof_eventfd_t_def)
    with w show ?thesis by (simp add: sizeof_eventfd_t_def)
  qed
  show "\<exists>efd'. eventfd_read_op H (efds st' ! i) sz = (efd', Some (Inr (8, ucast initval))) \<and>
          cnt efd' = 0"
    if h: "eventfd H rsv st initval fl = (st', Inr fd) \<and> fdtable st' fd = Some i \<and>
     flags (efds st' ! i) AND EFD_SEMAPHORE H = 0 \<and> initval \<noteq> 0"
  proof -
    from h eventfd_success [of H rsv st initval fl st' fd]
    have c: "cnt (efds st' ! i) = ucast initval" by auto
    with h have "cnt (efds st' ! i) \<noteq> 0" by (simp add: ucast_32_64_zero)
    with h c assms show ?thesis
      by (simp add: read_op_nonzero Let_def sizeof_eventfd_t_def)
  qed
qed

theorem read_drains_counter_witness:
  "sizeof_eventfd_t \<le> 8 \<and>
   flags (efd0\<lparr>cnt := 5, flags := 1\<rparr>) AND EFD_SEMAPHORE hdr0 = 0 \<and>
   (\<exists>efd'. eventfd_read_op hdr0 (efd0\<lparr>cnt := 5, flags := 1\<rparr>) 8 = (efd', Some (Inr (8, 5))) \<and>
      cnt efd' = 0) \<and>
   (\<exists>efd1 efd2. eventfd_write_op hdr0 (efd0\<lparr>flags := 1\<rparr>) 5 8 = (efd1, Some (Inr 8)) \<and>
      eventfd_read_op hdr0 efd1 8 = (efd2, Some (Inr (8, 5))) \<and> cnt efd2 = 0) \<and>
   snd (eventfd hdr0 (Inr 3) sys0 7 0) = Inr 3 \<and>
   fdtable (fst (eventfd hdr0 (Inr 3) sys0 7 0)) 3 = Some 0 \<and>
   (\<exists>efd'. eventfd_read_op hdr0 (efds (fst (eventfd hdr0 (Inr 3) sys0 7 0)) ! 0) 8
        = (efd', Some (Inr (8, 7))) \<and> cnt efd' = 0)"
proof -
  let ?S = "fst (eventfd hdr0 (Inr 3) sys0 7 0)"
  have sz: "sizeof_eventfd_t \<le> 8" by (simp add: sizeof_eventfd_t_def)
  have a: "flags (efd0\<lparr>cnt := 5, flags := 1\<rparr>) AND EFD_SEMAPHORE hdr0 = 0 \<and>
      cnt (efd0\<lparr>cnt := 5, flags := 1\<rparr>) \<noteq> 0"
    by (simp add: hdr0_def)
  have b: "flags (efd0\<lparr>flags := 1\<rparr>) AND EFD_SEMAPHORE hdr0 = 0 \<and> cnt (efd0\<lparr>flags := 1\<rparr>) = 0 \<and>
      (5 :: eventfd_t) \<noteq> 0 \<and> 5 \<noteq> UINT64_MAX"
    by (simp add: hdr0_def efd0_def UINT64_MAX_def)
  have c1: "snd (eventfd hdr0 (Inr 3) sys0 7 0) = Inr 3"
    and c2: "fdtable ?S 3 = Some 0"
    and c3: "flags (efds ?S ! 0) AND EFD_SEMAPHORE hdr0 = 0"
    by (simp_all add: eventfd_def sys0_def efd0_def hdr0_def Let_def)
  have c: "eventfd hdr0 (Inr 3) sys0 7 0 = (?S, Inr 3) \<and> fdtable ?S 3 = Some 0 \<and>
      flags (efds ?S ! 0) AND EFD_SEMAPHORE hdr0 = 0 \<and> (7 :: 32 word) \<noteq> 0"
    using c1 c2 c3 by (simp add: prod_eq_iff)
  note t = read_drains_counter [OF sz, where H = hdr0 and efd = "efd0\<lparr>cnt := 5, flags := 1\<rparr>"
      and wefd = "efd0\<lparr>flags := 1\<rparr>" and v = 5 and rsv = "Inr 3" and st = sys0 and initval = 7
      and fl = 0 and st' = ?S and fd = 3 and i = 0]
  from t a have "\<exists>efd'. eventfd_read_op hdr0 (efd0\<lparr>cnt := 5, flags := 1\<rparr>) 8 = (efd', Some (Inr (8, 5))) \<and>
      cnt efd' = 0" by simp
  moreover from t b have "\<exists>efd1 efd2. eventfd_write_op hdr0 (efd0\<lparr>flags := 1\<rparr>) 5 8 = (efd1, Some (Inr 8)) \<and>
      eventfd_read_op hdr0 efd1 8 = (efd2, Some (Inr (8, 5))) \<and> cnt efd2 = 0" by blast
  moreover from t c have "\<exists>efd'. eventfd_read_op hdr0 (efds ?S ! 0) 8 = (efd', Some (Inr (8, 7))) \<and>
      cnt efd' = 0" by simp
  ultimately show ?thesis using sz a c1 c2 by blast
qed

text \<open>
  Claim C3. In semaphore mode (\<open>EFD_SEMAPHORE\<close> set), with a buffer of at least 8 bytes,
  a read of an object whose counter is \<open>c > 0\<close> succeeds, returns exactly 1 and leaves the
  counter at \<open>c - 1\<close>. After a write of 3 to an object whose counter is 0, three reads in
  a row return 1 each, and with \<open>EFD_NONBLOCK\<close> set the fourth fails with \<open>EAGAIN\<close>.
\<close>

theorem read_semaphore_mode:
  assumes "flags efd AND EFD_SEMAPHORE H \<noteq> 0" and "sizeof_eventfd_t \<le> sz"
  shows
   "(cnt efd \<noteq> 0 \<longrightarrow>
       (\<exists>efd'. eventfd_read_op H efd sz = (efd', Some (Inr (8, 1))) \<and>
          cnt efd' = cnt efd - 1 \<and> unat (cnt efd') = unat (cnt efd) - 1 \<and> flags efd' = flags efd)) \<and>
    (cnt efd = 0 \<and> flags efd AND EFD_NONBLOCK H \<noteq> 0 \<longrightarrow>
       (\<exists>e1 e2 e3 e4 e5.
          eventfd_write_op H efd 3 sz = (e1, Some (Inr 8)) \<and>
          eventfd_read_op H e1 sz = (e2, Some (Inr (8, 1))) \<and>
          eventfd_read_op H e2 sz = (e3, Some (Inr (8, 1))) \<and>
          eventfd_read_op H e3 sz = (e4, Some (Inr (8, 1))) \<and>
          eventfd_read_op H e4 sz = (e5, Some (Inl EAGAIN))))"
proof (intro conjI impI)
  have step: "\<exists>efd'. eventfd_read_op H e sz = (efd', Some (Inr (8, 1))) \<and>
          cnt efd' = cnt e - 1 \<and> flags efd' = flags e"
    if "flags e AND EFD_SEMAPHORE H \<noteq> 0" "cnt e \<noteq> 0" for e
    using that assms(2) by (simp add: read_op_nonzero Let_def sizeof_eventfd_t_def)
  show "\<exists>efd'. eventfd_read_op H efd sz = (efd', Some (Inr (8, 1))) \<and>
          cnt efd' = cnt efd - 1 \<and> unat (cnt efd') = unat (cnt efd) - 1 \<and> flags efd' = flags efd"
    if nz: "cnt efd \<noteq> 0"
  proof -
    from nz have "unat (cnt efd) \<noteq> 0" by (simp only: unat_eq_0) simp
    then have "1 \<le> cnt efd" by (simp add: word_le_nat_alt Suc_le_eq)
    then have "unat (cnt efd - 1) = unat (cnt efd) - 1" by (simp add: unat_sub)
    with step [OF assms(1) nz] show ?thesis by auto
  qed
  show "\<exists>e1 e2 e3 e4 e5.
          eventfd_write_op H efd 3 sz = (e1, Some (Inr 8)) \<and>
          eventfd_read_op H e1 sz = (e2, Some (Inr (8, 1))) \<and>
          eventfd_read_op H e2 sz = (e3, Some (Inr (8, 1))) \<and>
          eventfd_read_op H e3 sz = (e4, Some (Inr (8, 1))) \<and>
          eventfd_read_op H e4 sz = (e5, Some (Inl EAGAIN))"
    if h: "cnt efd = 0 \<and> flags efd AND EFD_NONBLOCK H \<noteq> 0"
  proof -
    from h have "\<not> UINT64_MAX - 3 \<le> cnt efd" by (simp add: UINT64_MAX_def)
    with assms have "eventfd_write_op H efd 3 sz =
        (efd\<lparr>cnt := cnt efd + 3, read_sem := k_sem_give (read_sem efd)\<rparr>, Some (Inr sizeof_eventfd_t))"
      by (simp add: write_op_fits UINT64_MAX_def)
    then obtain e1 where w: "eventfd_write_op H efd 3 sz = (e1, Some (Inr 8))"
      and e1: "cnt e1 = 3" "flags e1 = flags efd"
      using h by (simp add: sizeof_eventfd_t_def)
    from step [of e1] e1 assms obtain e2 where r1: "eventfd_read_op H e1 sz = (e2, Some (Inr (8, 1)))"
      and e2: "cnt e2 = 2" "flags e2 = flags efd" by auto
    from step [of e2] e2 assms obtain e3 where r2: "eventfd_read_op H e2 sz = (e3, Some (Inr (8, 1)))"
      and e3: "cnt e3 = 1" "flags e3 = flags efd" by auto
    from step [of e3] e3 assms obtain e4 where r3: "eventfd_read_op H e3 sz = (e4, Some (Inr (8, 1)))"
      and e4: "cnt e4 = 0" "flags e4 = flags efd" by auto
    from e4 h assms have r4: "eventfd_read_op H e4 sz =
        (e4\<lparr>read_sem := k_sem_take_no_wait (read_sem e4)\<rparr>, Some (Inl EAGAIN))"
      by (simp add: read_op_zero_nonblock)
    from w r1 r2 r3 r4 show ?thesis by blast
  qed
qed

theorem read_semaphore_mode_witness:
  "flags (efd0\<lparr>cnt := 9, flags := 0x4003\<rparr>) AND EFD_SEMAPHORE hdr0 \<noteq> 0 \<and>
   (\<exists>efd'. eventfd_read_op hdr0 (efd0\<lparr>cnt := 9, flags := 0x4003\<rparr>) 8 = (efd', Some (Inr (8, 1))) \<and>
      cnt efd' = 8) \<and>
   flags (efd0\<lparr>flags := 0x4003\<rparr>) AND EFD_NONBLOCK hdr0 \<noteq> 0 \<and>
   (\<exists>e1 e2 e3 e4 e5.
      eventfd_write_op hdr0 (efd0\<lparr>flags := 0x4003\<rparr>) 3 8 = (e1, Some (Inr 8)) \<and>
      eventfd_read_op hdr0 e1 8 = (e2, Some (Inr (8, 1))) \<and>
      eventfd_read_op hdr0 e2 8 = (e3, Some (Inr (8, 1))) \<and>
      eventfd_read_op hdr0 e3 8 = (e4, Some (Inr (8, 1))) \<and>
      eventfd_read_op hdr0 e4 8 = (e5, Some (Inl EAGAIN)))"
proof -
  have sz: "sizeof_eventfd_t \<le> 8" by (simp add: sizeof_eventfd_t_def)
  have s1: "flags (efd0\<lparr>cnt := 9, flags := 0x4003\<rparr>) AND EFD_SEMAPHORE hdr0 \<noteq> 0"
    and s2: "flags (efd0\<lparr>flags := 0x4003\<rparr>) AND EFD_SEMAPHORE hdr0 \<noteq> 0"
    and nb: "flags (efd0\<lparr>flags := 0x4003\<rparr>) AND EFD_NONBLOCK hdr0 \<noteq> 0"
    and z: "cnt (efd0\<lparr>flags := 0x4003\<rparr>) = 0"
    by (simp_all add: hdr0_def efd0_def)
  from read_semaphore_mode [OF s1 sz]
  have "\<exists>efd'. eventfd_read_op hdr0 (efd0\<lparr>cnt := 9, flags := 0x4003\<rparr>) 8 = (efd', Some (Inr (8, 1))) \<and>
      cnt efd' = 8" by auto
  moreover from read_semaphore_mode [OF s2 sz] nb z
  have "\<exists>e1 e2 e3 e4 e5.
      eventfd_write_op hdr0 (efd0\<lparr>flags := 0x4003\<rparr>) 3 8 = (e1, Some (Inr 8)) \<and>
      eventfd_read_op hdr0 e1 8 = (e2, Some (Inr (8, 1))) \<and>
      eventfd_read_op hdr0 e2 8 = (e3, Some (Inr (8, 1))) \<and>
      eventfd_read_op hdr0 e3 8 = (e4, Some (Inr (8, 1))) \<and>
      eventfd_read_op hdr0 e4 8 = (e5, Some (Inl EAGAIN))" by blast
  ultimately show ?thesis using s1 nb by blast
qed

text \<open>
  Claim C5. Take the object that a successful \<open>eventfd\<close> binds to the handle it returns,
  and run on it any sequence of reads, writes and control operations, with any arguments.
  In every state so reached the counter differs from the reserved value \<open>UINT64_MAX\<close>.
\<close>

theorem counter_never_sentinel:
  assumes "eventfd H rsv st initval fl = (st', Inr fd)" and "fdtable st' fd = Some i"
    and "do_calls H (efds st' ! i) cs = Some efd"
  shows "cnt efd \<noteq> UINT64_MAX"
proof -
  from eventfd_success [OF assms(1)] assms(2) have "cnt (efds st' ! i) = ucast initval" by auto
  then have "cnt (efds st' ! i) \<noteq> UINT64_MAX" by (simp add: ucast_32_64_not_max)
  from do_calls_inv [OF this assms(3)] show ?thesis .
qed

theorem counter_never_sentinel_witness:
  "eventfd hdr0 (Inr 3) sys0 7 0 = (fst (eventfd hdr0 (Inr 3) sys0 7 0), Inr 3) \<and>
   fdtable (fst (eventfd hdr0 (Inr 3) sys0 7 0)) 3 = Some 0 \<and>
   do_calls hdr0 (efds (fst (eventfd hdr0 (Inr 3) sys0 7 0)) ! 0)
     [Write 5 8, Read 8, Ioctl 0 pm0 (F_SETFL 0x4000), Write (UINT64_MAX - 1) 8, Write 1 8] =
     Some \<lparr>read_sem = k_sem_init 1 1, write_sem = k_sem_init 1 1,
           cnt = 0xFFFFFFFFFFFFFFFE, flags = 0x4000\<rparr> \<and>
   cnt \<lparr>read_sem = k_sem_init 1 1, write_sem = k_sem_init 1 1,
        cnt = 0xFFFFFFFFFFFFFFFE, flags = 0x4000\<rparr> \<noteq> UINT64_MAX"
proof -
  let ?S = "fst (eventfd hdr0 (Inr 3) sys0 7 0)"
  have c: "eventfd hdr0 (Inr 3) sys0 7 0 = (?S, Inr 3)"
    by (simp add: eventfd_def sys0_def efd0_def hdr0_def Let_def prod_eq_iff)
  have f: "fdtable ?S 3 = Some 0"
    by (simp add: eventfd_def sys0_def efd0_def hdr0_def Let_def)
  have r: "do_calls hdr0 (efds ?S ! 0)
     [Write 5 8, Read 8, Ioctl 0 pm0 (F_SETFL 0x4000), Write (UINT64_MAX - 1) 8, Write 1 8] =
     Some \<lparr>read_sem = k_sem_init 1 1, write_sem = k_sem_init 1 1,
           cnt = 0xFFFFFFFFFFFFFFFE, flags = 0x4000\<rparr>"
    by (simp add: eventfd_def sys0_def efd0_def hdr0_def Let_def k_sem_init_def
      read_op_nonzero write_op_fits write_op_overflow_nonblock sizeof_eventfd_t_def
      UINT64_MAX_def k_sem_give_def k_sem_take_no_wait_def)
  from c f r counter_never_sentinel [OF c f r] show ?thesis by simp
qed

text \<open>
  Claim C9. \<open>ZFD_IOCTL_POLL_UPDATE\<close> runs \<open>eventfd_poll_update\<close>, which never looks at
  the object. Let \<open>revents\<close> be empty on entry and let the bits \<open>ZSOCK_POLLIN\<close> and
  \<open>ZSOCK_POLLOUT\<close> be disjoint. For every interest mask \<open>events\<close>, the update reports
  \<open>ZSOCK_POLLOUT\<close> if and only if \<open>events\<close> asks for it, whatever the counter is. When
  \<open>events\<close> asks for \<open>ZSOCK_POLLIN\<close> and the cursor points at a wait slot, it reports
  \<open>ZSOCK_POLLIN\<close> if and only if the state of that slot is not
  \<open>K_POLL_STATE_NOT_READY\<close>, and it moves the cursor past the slot; when \<open>events\<close> does
  not ask for \<open>ZSOCK_POLLIN\<close>, it reports no \<open>ZSOCK_POLLIN\<close> and leaves the cursor.
\<close>

theorem poll_update_reports:
  assumes "revents (pfd m) = 0" and "ZSOCK_POLLIN H AND ZSOCK_POLLOUT H = 0"
    and "events (pfd m) AND ZSOCK_POLLIN H \<noteq> 0 \<longrightarrow> pev m < length (slots m)"
  shows "\<exists>m'. eventfd_ioctl_op H ob (efd, m) ZFD_IOCTL_POLL_UPDATE = Some ((efd, m'), Inr 0) \<and>
     ((revents (pfd m') AND ZSOCK_POLLOUT H \<noteq> 0) = (events (pfd m) AND ZSOCK_POLLOUT H \<noteq> 0)) \<and>
     (events (pfd m) AND ZSOCK_POLLIN H \<noteq> 0 \<longrightarrow>
        ((revents (pfd m') AND ZSOCK_POLLIN H \<noteq> 0) =
           (state (slots m ! pev m) \<noteq> K_POLL_STATE_NOT_READY H)) \<and>
        pev m' = pev m + 1) \<and>
     (events (pfd m) AND ZSOCK_POLLIN H = 0 \<longrightarrow>
        revents (pfd m') AND ZSOCK_POLLIN H = 0 \<and> pev m' = pev m)"
proof -
  have io: "ZSOCK_POLLOUT H AND ZSOCK_POLLIN H = 0" using assms(2) by (simp add: and.commute)
  show ?thesis
  proof (cases "events (pfd m) AND ZSOCK_POLLIN H = 0")
    case True
    with assms io show ?thesis
      by (auto simp: eventfd_poll_update_def Let_def or_and_right)
  next
    case False
    then have i: "ZSOCK_POLLIN H \<noteq> 0" by (rule and_nonzero_right)
    from False assms(3) have b: "pev m < length (slots m)" by simp
    with False assms(1,2) io i show ?thesis
      by (auto simp: eventfd_poll_update_def Let_def or_and_right or_and_disjoint)
  qed
qed

theorem poll_update_reports_witness:
  "revents (pfd pm0) = 0 \<and> ZSOCK_POLLIN hdr0 AND ZSOCK_POLLOUT hdr0 = 0 \<and>
   events (pfd pm0) AND ZSOCK_POLLIN hdr0 \<noteq> 0 \<and> events (pfd pm0) AND ZSOCK_POLLOUT hdr0 \<noteq> 0 \<and>
   pev pm0 < length (slots pm0) \<and> state (slots pm0 ! pev pm0) \<noteq> K_POLL_STATE_NOT_READY hdr0 \<and>
   (\<exists>m'. eventfd_ioctl_op hdr0 0 (efd0, pm0) ZFD_IOCTL_POLL_UPDATE = Some ((efd0, m'), Inr 0) \<and>
      revents (pfd m') AND ZSOCK_POLLOUT hdr0 \<noteq> 0 \<and>
      revents (pfd m') AND ZSOCK_POLLIN hdr0 \<noteq> 0 \<and> pev m' = 1) \<and>
   events (pfd (pm0\<lparr>pfd := (pfd pm0)\<lparr>events := 4\<rparr>\<rparr>)) AND ZSOCK_POLLIN hdr0 = 0 \<and>
   (\<exists>m'. eventfd_ioctl_op hdr0 0 (efd0, pm0\<lparr>pfd := (pfd pm0)\<lparr>events := 4\<rparr>\<rparr>) ZFD_IOCTL_POLL_UPDATE
        = Some ((efd0, m'), Inr 0) \<and>
      revents (pfd m') AND ZSOCK_POLLOUT hdr0 \<noteq> 0 \<and>
      revents (pfd m') AND ZSOCK_POLLIN hdr0 = 0 \<and> pev m' = 0)"
proof -
  let ?m = "pm0\<lparr>pfd := (pfd pm0)\<lparr>events := 4\<rparr>\<rparr>"
  have r: "revents (pfd pm0) = 0" "revents (pfd ?m) = 0" by (simp_all add: pm0_def)
  have d: "ZSOCK_POLLIN hdr0 AND ZSOCK_POLLOUT hdr0 = 0" by (simp add: hdr0_def)
  have i: "events (pfd pm0) AND ZSOCK_POLLIN hdr0 \<noteq> 0" "events (pfd pm0) AND ZSOCK_POLLOUT hdr0 \<noteq> 0"
    "events (pfd ?m) AND ZSOCK_POLLOUT hdr0 \<noteq> 0"
    by (simp_all add: pm0_def hdr0_def)
  have n: "events (pfd ?m) AND ZSOCK_POLLIN hdr0 = 0" by (simp add: pm0_def hdr0_def)
  have b: "pev pm0 < length (slots pm0)" "pev pm0 = 0" "pev ?m = 0" by (simp_all add: pm0_def)
  have s: "state (slots pm0 ! pev pm0) \<noteq> K_POLL_STATE_NOT_READY hdr0" by (simp add: pm0_def hdr0_def)
  have b1: "events (pfd pm0) AND ZSOCK_POLLIN hdr0 \<noteq> 0 \<longrightarrow> pev pm0 < length (slots pm0)"
    using b by simp
  have b2: "events (pfd ?m) AND ZSOCK_POLLIN hdr0 \<noteq> 0 \<longrightarrow> pev ?m < length (slots ?m)"
    using n by simp
  from poll_update_reports [OF r(1) d b1, of 0 efd0] i s b
  have "\<exists>m'. eventfd_ioctl_op hdr0 0 (efd0, pm0) ZFD_IOCTL_POLL_UPDATE = Some ((efd0, m'), Inr 0) \<and>
      revents (pfd m') AND ZSOCK_POLLOUT hdr0 \<noteq> 0 \<and>
      revents (pfd m') AND ZSOCK_POLLIN hdr0 \<noteq> 0 \<and> pev m' = 1" by auto
  moreover from poll_update_reports [OF r(2) d b2, of 0 efd0] i n b
  have "\<exists>m'. eventfd_ioctl_op hdr0 0 (efd0, ?m) ZFD_IOCTL_POLL_UPDATE = Some ((efd0, m'), Inr 0) \<and>
      revents (pfd m') AND ZSOCK_POLLOUT hdr0 \<noteq> 0 \<and>
      revents (pfd m') AND ZSOCK_POLLIN hdr0 = 0 \<and> pev m' = 0" by auto
  ultimately show ?thesis using r d i n b s by blast
qed

text \<open>
  Claim C6, amended. The parameter \<open>initval\<close> of \<open>eventfd\<close> is an \<open>unsigned int\<close> of
  32 bits, not a 64-bit value. For every such \<open>initval\<close> and every \<open>flags\<close>, when
  \<open>eventfd\<close> succeeds the flags lie inside \<open>EFD_FLAGS_SET\<close> and the object bound to the
  returned handle has its counter equal to \<open>initval\<close>, zero-extended; \<open>read_sem\<close> holds
  one unit if and only if \<open>initval\<close> is nonzero; \<open>write_sem\<close> holds none; and the flags
  are \<open>EFD_IN_USE\<close> together with the requested ones.

  The counterexample is the claim as first stated, for a 64-bit initial value: the value
  \<open>2 ^ 32\<close> reaches the parameter as 0, so the counter becomes 0 and \<open>read_sem\<close> stays
  empty although the requested value is nonzero.
\<close>

theorem create_initialises:
  assumes "eventfd H rsv st initval fl = (st', Inr fd)"
  shows "\<exists>i. fdtable st' fd = Some i \<and> i < length (efds st') \<and>
     fl AND NOT (EFD_FLAGS_SET H) = 0 \<and>
     cnt (efds st' ! i) = ucast initval \<and> unat (cnt (efds st' ! i)) = unat initval \<and>
     sem_count (read_sem (efds st' ! i)) = (if initval \<noteq> 0 then 1 else 0) \<and>
     sem_limit (read_sem (efds st' ! i)) = 1 \<and>
     sem_count (write_sem (efds st' ! i)) = 0 \<and>
     flags (efds st' ! i) = EFD_IN_USE H OR fl"
  using eventfd_success [OF assms]
  by (auto simp: k_sem_init_def unat_ucast_32_64 ucast_32_64_zero)

theorem create_initialises_witness:
  "eventfd hdr0 (Inr 3) sys0 7 0x4002 = (fst (eventfd hdr0 (Inr 3) sys0 7 0x4002), Inr 3) \<and>
   (\<exists>i. fdtable (fst (eventfd hdr0 (Inr 3) sys0 7 0x4002)) 3 = Some i \<and>
      cnt (efds (fst (eventfd hdr0 (Inr 3) sys0 7 0x4002)) ! i) = 7 \<and>
      sem_count (read_sem (efds (fst (eventfd hdr0 (Inr 3) sys0 7 0x4002)) ! i)) = 1 \<and>
      sem_count (write_sem (efds (fst (eventfd hdr0 (Inr 3) sys0 7 0x4002)) ! i)) = 0 \<and>
      flags (efds (fst (eventfd hdr0 (Inr 3) sys0 7 0x4002)) ! i) = 0x4003)"
proof -
  have c: "eventfd hdr0 (Inr 3) sys0 7 0x4002 = (fst (eventfd hdr0 (Inr 3) sys0 7 0x4002), Inr 3)"
    by (simp add: eventfd_def sys0_def efd0_def hdr0_def Let_def prod_eq_iff)
  from create_initialises [OF c] c show ?thesis by (auto simp: hdr0_def)
qed

theorem create_initialises_counterexample:
  "snd (eventfd hdr0 (Inr 3) sys0 (ucast (0x100000000 :: eventfd_t)) 0) = Inr 3 \<and>
   cnt (efds (fst (eventfd hdr0 (Inr 3) sys0 (ucast (0x100000000 :: eventfd_t)) 0)) ! 0) \<noteq> 0x100000000 \<and>
   (0x100000000 :: eventfd_t) \<noteq> 0 \<and>
   sem_count (read_sem (efds (fst (eventfd hdr0 (Inr 3) sys0 (ucast (0x100000000 :: eventfd_t)) 0)) ! 0)) = 0"
  by (simp add: eventfd_def sys0_def efd0_def hdr0_def Let_def k_sem_init_def)

text \<open>
  Claim C1 says that \<open>F_SETFL\<close> with flags inside \<open>EFD_FLAGS_SET\<close> succeeds, replaces the
  mode flags and leaves the object allocated, its slot being freed by \<open>ZFD_IOCTL_CLOSE\<close>
  alone. The code succeeds and replaces the flags, but it does not keep the object
  allocated. On a pool of one slot \<open>eventfd\<close> claims the slot for handle 3, and a second
  \<open>eventfd\<close> fails with \<open>ENOMEM\<close>. \<open>F_SETFL\<close> with the recognised flag \<open>EFD_NONBLOCK\<close>
  returns 0 and stores exactly that flag, so \<open>EFD_IN_USE\<close> is cleared without any
  \<open>ZFD_IOCTL_CLOSE\<close>. The scan of the next \<open>eventfd\<close> then takes the slot for handle 4
  and sets its counter anew, while handle 3 is still bound to it.
\<close>

theorem setfl_frees_open_slot:
  "snd (eventfd hdr0 (Inr 3) sys0 7 0) = Inr 3 \<and>
   fdtable (fst (eventfd hdr0 (Inr 3) sys0 7 0)) 3 = Some 0 \<and>
   flags (efds (fst (eventfd hdr0 (Inr 3) sys0 7 0)) ! 0) AND EFD_IN_USE hdr0 \<noteq> 0 \<and>
   snd (eventfd hdr0 (Inr 4) (fst (eventfd hdr0 (Inr 3) sys0 7 0)) 9 0) = Inl ENOMEM \<and>
   0x4000 AND NOT (EFD_FLAGS_SET hdr0) = 0 \<and>
   eventfd_ioctl_op hdr0 0 (efds (fst (eventfd hdr0 (Inr 3) sys0 7 0)) ! 0, pm0) (F_SETFL 0x4000) =
     Some ((\<lparr>read_sem = k_sem_init 1 1, write_sem = k_sem_init 0 1, cnt = 7, flags = 0x4000\<rparr>, pm0), Inr 0) \<and>
   flags \<lparr>read_sem = k_sem_init 1 1, write_sem = k_sem_init 0 1, cnt = 7, flags = 0x4000\<rparr>
     AND EFD_IN_USE hdr0 = 0 \<and>
   eventfd hdr0 (Inr 4)
     \<lparr>efds = [\<lparr>read_sem = k_sem_init 1 1, write_sem = k_sem_init 0 1, cnt = 7, flags = 0x4000\<rparr>],
      fdtable = [3 \<mapsto> 0]\<rparr> 9 0 =
     (\<lparr>efds = [\<lparr>read_sem = k_sem_init 1 1, write_sem = k_sem_init 0 1, cnt = 9, flags = 1\<rparr>],
       fdtable = [3 \<mapsto> 0, 4 \<mapsto> 0]\<rparr>, Inr 4)"
  by (simp add: eventfd_def sys0_def efd0_def hdr0_def Let_def k_sem_init_def)

end
